theory Spec2Isabelle
  imports Main
begin

section \<open>Strings and regular-expression character classes\<close>

text \<open>
  A JavaScript string is modelled as a \<^typ>\<open>string\<close>: one \<^typ>\<open>char\<close> per UTF-16
  code unit, for the code units 0..255 (ASCII and Latin-1).  Code units above 255 are
  outside the model; where a built-in would produce one, the model says so with
  \<open>None\<close>.
\<close>

definition code :: "char \<Rightarrow> nat" where
  "code c = of_char c"

definition isDigit :: "char \<Rightarrow> bool" where
  "isDigit c = (48 \<le> code c \<and> code c \<le> 57)"

definition isLowerAZ :: "char \<Rightarrow> bool" where
  "isLowerAZ c = (97 \<le> code c \<and> code c \<le> 122)"

definition isUpperAZ :: "char \<Rightarrow> bool" where
  "isUpperAZ c = (65 \<le> code c \<and> code c \<le> 90)"

text \<open>The class \<open>\s\<close>: tab, line feed, vertical tab, form feed, carriage return, space,
  no-break space.\<close>

definition isSpace :: "char \<Rightarrow> bool" where
  "isSpace c = (code c \<in> {9, 10, 11, 12, 13, 32, 160})"

text \<open>The class \<open>\w\<close>.\<close>

definition isWordChar :: "char \<Rightarrow> bool" where
  "isWordChar c = (isDigit c \<or> isLowerAZ c \<or> isUpperAZ c \<or> code c = 95)"

text \<open>What \<open>.\<close> does not match without the \<open>s\<close> flag.\<close>

definition isLineTerminator :: "char \<Rightarrow> bool" where
  "isLineTerminator c = (code c = 10 \<or> code c = 13)"

definition toLowerChar :: "char \<Rightarrow> char" where
  "toLowerChar c =
     (if isUpperAZ c \<or> (192 \<le> code c \<and> code c \<le> 222 \<and> code c \<noteq> 215)
      then char_of (code c + 32) else c)"

definition toLowerCase :: "string \<Rightarrow> string" where
  "toLowerCase s = map toLowerChar s"

text \<open>\<open>toUpperCase\<close> of a one-character string.  The sharp s becomes \<open>SS\<close>; the micro
  sign and y with diaeresis become code units above 255.\<close>

definition toUpperChar :: "char \<Rightarrow> string option" where
  "toUpperChar c =
     (if isLowerAZ c \<or> (224 \<le> code c \<and> code c \<le> 254 \<and> code c \<noteq> 247)
      then Some [char_of (code c - 32)]
      else if code c = 223 then Some ''SS''
      else if code c = 181 \<or> code c = 255 then None
      else Some [c])"

text \<open>\<open>toUpperCase\<close> of a character matched by \<open>[a-z]\<close>.\<close>

definition upperAZ :: "char \<Rightarrow> char" where
  "upperAZ c = char_of (code c - 32)"

text \<open>\<open>String.prototype.trim\<close>.\<close>

definition trim :: "string \<Rightarrow> string" where
  "trim s = rev (dropWhile isSpace (rev (dropWhile isSpace s)))"

text \<open>\<open>String.prototype.includes\<close>.\<close>

fun includesStr :: "string \<Rightarrow> string \<Rightarrow> bool" where
  "includesStr [] t = (t = [])"
| "includesStr (c # s) t = (take (length t) (c # s) = t \<or> includesStr s t)"

section \<open>Briefs\<close>

text \<open>
  A brief is a JSON object.  An object is the list of its own entries in the order of
  \<open>Object.entries\<close>.  Numbers are the integers.  \<open>JInherited k\<close> is the member \<open>k\<close> that
  every object inherits from \<open>Object.prototype\<close>; it never occurs inside a brief.
\<close>

datatype jsval =
    JNull
  | JBool bool
  | JNum int
  | JStr string
  | JArr "jsval list"
  | JObj "(string \<times> jsval) list"
  | JInherited string

type_synonym brief = "(string \<times> jsval) list"

definition objectPrototypeNames :: "string list" where
  "objectPrototypeNames =
     [''constructor'', ''__defineGetter__'', ''__defineSetter__'', ''hasOwnProperty'',
      ''__lookupGetter__'', ''__lookupSetter__'', ''isPrototypeOf'',
      ''propertyIsEnumerable'', ''toString'', ''valueOf'', ''__proto__'',
      ''toLocaleString'']"

text \<open>\<open>obj[k]\<close>: the own property, else the inherited member, else \<open>undefined\<close> (\<open>None\<close>).\<close>

definition getProp :: "brief \<Rightarrow> string \<Rightarrow> jsval option" where
  "getProp obj k =
     (case map_of obj k of
        Some v \<Rightarrow> Some v
      | None \<Rightarrow> if k \<in> set objectPrototypeNames then Some (JInherited k) else None)"

section \<open>Field resolver: \<open>TemplateApplier.getValueFromBrief\<close>\<close>

definition normalizeForComparison :: "string \<Rightarrow> string" where
  "normalizeForComparison str =
     filter (\<lambda>c. isLowerAZ c \<or> isDigit c)
       (filter (\<lambda>c. \<not> (c = CHR ''_'' \<or> isSpace c \<or> c = CHR ''-'')) (toLowerCase str))"

text \<open>\<open>s.replace(/_([a-z])/g, g => pre + g[1].toUpperCase())\<close>.\<close>

fun replaceUnderscoreLower :: "string \<Rightarrow> string \<Rightarrow> string" where
  "replaceUnderscoreLower pre (a # b # rest) =
     (if a = CHR ''_'' \<and> isLowerAZ b
      then pre @ upperAZ b # replaceUnderscoreLower pre rest
      else a # replaceUnderscoreLower pre (b # rest))"
| "replaceUnderscoreLower pre s = s"

text \<open>\<open>s.replace(/([A-Z])/g, '_$1')\<close>.\<close>

definition underscoreBeforeUpper :: "string \<Rightarrow> string" where
  "underscoreBeforeUpper s = concat (map (\<lambda>c. if isUpperAZ c then [CHR ''_'', c] else [c]) s)"

text \<open>\<open>varName.charAt(0).toUpperCase() + varName.slice(1).replace(...)\<close>; \<open>None\<close> when the
  upper-cased first character lies outside the modelled code units, so that the variation
  equals no key of the brief.\<close>

definition titleCase :: "string \<Rightarrow> string option" where
  "titleCase varName =
     (case varName of
        [] \<Rightarrow> Some []
      | c # rest \<Rightarrow>
          (case toUpperChar c of
             None \<Rightarrow> None
           | Some u \<Rightarrow> Some (u @ replaceUnderscoreLower '' '' rest)))"

definition variations :: "string \<Rightarrow> string option list" where
  "variations varName =
     [Some varName,
      Some (map (\<lambda>c. if c = CHR ''_'' then CHR '' '' else c) varName),
      Some (filter (\<lambda>c. c \<noteq> CHR ''_'') varName),
      Some (replaceUnderscoreLower [] varName),
      Some (toLowerCase (underscoreBeforeUpper varName)),
      titleCase varName]"

text \<open>The loop over the variations: the first one that is defined in the brief.\<close>

fun firstDefined :: "brief \<Rightarrow> string option list \<Rightarrow> jsval option" where
  "firstDefined briefData [] = None"
| "firstDefined briefData (None # vs) = firstDefined briefData vs"
| "firstDefined briefData (Some variation # vs) =
     (case getProp briefData variation of
        Some v \<Rightarrow> Some v
      | None \<Rightarrow> firstDefined briefData vs)"

text \<open>One row of the matrix of \<open>levenshteinDistance\<close>: \<open>prev\<close> is row \<open>i - 1\<close> from
  column \<open>j - 1\<close> on, \<open>left\<close> is \<open>matrix[i][j - 1]\<close>, \<open>c\<close> is \<open>str2.charAt(i - 1)\<close>, and the
  string is \<open>str1\<close> from index \<open>j - 1\<close> on.\<close>

fun levRow :: "char \<Rightarrow> string \<Rightarrow> nat list \<Rightarrow> nat \<Rightarrow> nat list" where
  "levRow c (d # str1) (diag # up # prev) left =
     (let cell = (if c = d then diag else min (diag + 1) (min (left + 1) (up + 1)))
      in cell # levRow c str1 (up # prev) cell)"
| "levRow c str1 prev left = []"

text \<open>The rows \<open>i = 1 .. str2.length\<close>; row \<open>i\<close> starts with \<open>matrix[i][0] = i\<close>.\<close>

fun levRows :: "string \<Rightarrow> string \<Rightarrow> nat \<Rightarrow> nat list \<Rightarrow> nat list" where
  "levRows str1 [] i prev = prev"
| "levRows str1 (c # str2) i prev = levRows str1 str2 (i + 1) (i # levRow c str1 prev i)"

definition levenshteinDistance :: "string \<Rightarrow> string \<Rightarrow> nat" where
  "levenshteinDistance str1 str2 = last (levRows str1 str2 1 [0 ..< length str1 + 1])"

text \<open>\<open>calculateSimilarity(a, b) > 0.7\<close>.  The quotient \<open>(n - d) / n\<close> of two integers
  exceeds the double \<open>0.7\<close> exactly when \<open>10 (n - d) > 7 n\<close>, for every length a string
  can have.\<close>

definition similarityAbove07 :: "string \<Rightarrow> string \<Rightarrow> bool" where
  "similarityAbove07 str1 str2 =
     (let longer = (if length str1 > length str2 then str1 else str2);
          shorter = (if length str1 > length str2 then str2 else str1)
      in if length longer = 0 then True
         else 10 * (length longer - levenshteinDistance longer shorter) > 7 * length longer)"

text \<open>The condition under which the loop over \<open>Object.entries(briefData)\<close> returns the
  value of \<open>key\<close>.\<close>

definition fuzzyKey :: "string \<Rightarrow> string \<Rightarrow> bool" where
  "fuzzyKey normalizedVar key =
     (let normalizedKey = normalizeForComparison key
      in normalizedKey = normalizedVar \<or>
         ((includesStr normalizedKey normalizedVar \<or> includesStr normalizedVar normalizedKey) \<and>
          similarityAbove07 normalizedKey normalizedVar))"

definition firstEntry :: "(string \<Rightarrow> bool) \<Rightarrow> brief \<Rightarrow> jsval option" where
  "firstEntry p briefData = map_option snd (find (\<lambda>kv. p (fst kv)) briefData)"

definition semanticMappings :: "(string \<times> string list) list" where
  "semanticMappings =
     [(''description'', [''brief_details'', ''raw_brief'', ''details'', ''overview'', ''brief'']),
      (''project_name'', [''project name'', ''projectname'', ''title'']),
      (''due_date'', [''due dates'', ''deadline'', ''duedate'', ''publish by'']),
      (''requested_by'', [''client name'', ''requester'', ''requested by name'']),
      (''platform'', [''asset type'', ''channel'']),
      (''client_email'', [''contact email'', ''email''])]"

text \<open>\<open>s.replace(/[_\s-]/g, '')\<close>.\<close>

definition stripSeparators :: "string \<Rightarrow> string" where
  "stripSeparators s = filter (\<lambda>c. \<not> (c = CHR ''_'' \<or> isSpace c \<or> c = CHR ''-'')) s"

fun firstAlias :: "string list \<Rightarrow> brief \<Rightarrow> jsval option" where
  "firstAlias [] briefData = None"
| "firstAlias (alias # aliases) briefData =
     (case firstEntry (\<lambda>key. normalizeForComparison key = normalizeForComparison alias) briefData of
        Some v \<Rightarrow> Some v
      | None \<Rightarrow> firstAlias aliases briefData)"

fun semanticLoop :: "(string \<times> string list) list \<Rightarrow> string \<Rightarrow> brief \<Rightarrow> jsval option" where
  "semanticLoop [] nv briefData = None"
| "semanticLoop ((canonical, aliases) # ms) nv briefData =
     (if nv = stripSeparators canonical
      then (case firstAlias aliases briefData of
              Some v \<Rightarrow> Some v
            | None \<Rightarrow> semanticLoop ms nv briefData)
      else semanticLoop ms nv briefData)"

definition getValueFromBrief :: "string \<Rightarrow> brief \<Rightarrow> jsval" where
  "getValueFromBrief varName briefData =
     (case getProp briefData varName of
        Some v \<Rightarrow> v
      | None \<Rightarrow>
     (case firstDefined briefData (variations varName) of
        Some v \<Rightarrow> v
      | None \<Rightarrow>
     (case firstEntry (fuzzyKey (normalizeForComparison varName)) briefData of
        Some v \<Rightarrow> v
      | None \<Rightarrow>
     (case semanticLoop semanticMappings (stripSeparators (toLowerCase varName)) briefData of
        Some v \<Rightarrow> v
      | None \<Rightarrow> JNull))))"

section \<open>The matching stages of the field resolver, as the specification words them\<close>

text \<open>
  The specification lists five ways in which a key of the brief can match a variable
  name: exact lookup, a naming-convention rewrite, equality of the normalized characters,
  normalized substring containment with a similarity above 0.7, and the table of semantic
  aliases.
\<close>

definition exactMatch :: "string \<Rightarrow> string \<Rightarrow> bool" where
  "exactMatch varName key = (key = varName)"

definition namingRewriteMatch :: "string \<Rightarrow> string \<Rightarrow> bool" where
  "namingRewriteMatch varName key = (Some key \<in> set (variations varName))"

definition normalizedMatch :: "string \<Rightarrow> string \<Rightarrow> bool" where
  "normalizedMatch varName key = (normalizeForComparison key = normalizeForComparison varName)"

definition containmentMatch :: "string \<Rightarrow> string \<Rightarrow> bool" where
  "containmentMatch varName key =
     ((includesStr (normalizeForComparison key) (normalizeForComparison varName) \<or>
       includesStr (normalizeForComparison varName) (normalizeForComparison key)) \<and>
      similarityAbove07 (normalizeForComparison key) (normalizeForComparison varName))"

definition aliasMatch :: "string \<Rightarrow> string \<Rightarrow> bool" where
  "aliasMatch varName key =
     list_ex (\<lambda>m. stripSeparators (toLowerCase varName) = stripSeparators (fst m) \<and>
                 list_ex (\<lambda>alias. normalizeForComparison key = normalizeForComparison alias) (snd m))
       semanticMappings"

definition keyMatches :: "string \<Rightarrow> string \<Rightarrow> bool" where
  "keyMatches varName key =
     (exactMatch varName key \<or> namingRewriteMatch varName key \<or> normalizedMatch varName key \<or>
      containmentMatch varName key \<or> aliasMatch varName key)"

definition someKeyMatches :: "string \<Rightarrow> brief \<Rightarrow> bool" where
  "someKeyMatches varName briefData = list_ex (\<lambda>kv. keyMatches varName (fst kv)) briefData"

text \<open>Some rewrite of the name is a member that every object inherits.\<close>

definition inheritedVariant :: "string \<Rightarrow> bool" where
  "inheritedVariant varName =
     list_ex (\<lambda>vo. case vo of None \<Rightarrow> False | Some k \<Rightarrow> k \<in> set objectPrototypeNames)
       (variations varName)"

section \<open>Completeness checker: \<open>CompletenessChecker\<close>\<close>








fun joinWith :: "string \<Rightarrow> string list \<Rightarrow> string" where
  "joinWith sep [] = []"
| "joinWith sep [w] = w"
| "joinWith sep (w # ws) = w @ sep @ joinWith sep ws"












section \<open>Delimited patterns: \<open>/\{\{(.*?)\}\}/g\<close> and \<open>/\[SOP:(.*?)\]/gs\<close>\<close>

text \<open>
  \<open>lazyUntil dot close s\<close> is the lazy group \<open>(.*?)\<close> followed by the closing
  delimiter, tried at the start of \<open>s\<close>: the shortest prefix of \<open>s\<close> made of characters
  that \<open>dot\<close> accepts and followed by \<open>close\<close>.  It returns the prefix and what follows
  the closing delimiter.
\<close>

fun lazyUntil :: "(char \<Rightarrow> bool) \<Rightarrow> string \<Rightarrow> string \<Rightarrow> (string \<times> string) option" where
  "lazyUntil dot close [] = (if close = [] then Some ([], []) else None)"
| "lazyUntil dot close (c # s) =
     (if take (length close) (c # s) = close then Some ([], drop (length close) (c # s))
      else if dot c
      then (case lazyUntil dot close s of
              None \<Rightarrow> None
            | Some (g, rest) \<Rightarrow> Some (c # g, rest))
      else None)"

lemma lazyUntil_length: "lazyUntil dot close s = Some (g, rest) \<Longrightarrow> length rest \<le> length s"
  by (induction s arbitrary: g rest) (auto split: if_splits option.splits)

text \<open>
  The successive matches of a global pattern \<open>open (.*?) close\<close> in a text, from left to
  right and without overlap: \<open>Inl c\<close> is a character outside every match, \<open>Inr g\<close> is a
  match with first group \<open>g\<close>.  The opening delimiter is \<open>o # os\<close>.
\<close>

function scanDelimited ::
  "(char \<Rightarrow> bool) \<Rightarrow> char \<Rightarrow> string \<Rightarrow> string \<Rightarrow> string \<Rightarrow> (char + string) list" where
  "scanDelimited dot o' os close [] = []"
| "scanDelimited dot o' os close (c # s) =
     (if c = o' \<and> take (length os) s = os
      then (case lazyUntil dot close (drop (length os) s) of
              Some (g, rest) \<Rightarrow> Inr g # scanDelimited dot o' os close rest
            | None \<Rightarrow> Inl c # scanDelimited dot o' os close s)
      else Inl c # scanDelimited dot o' os close s)"
  by pat_completeness auto
termination
proof (relation "measure (\<lambda>(dot, o', os, close, s). length s)")
  show "wf (measure (\<lambda>(dot, o', os, close, s). length s))" by simp
next
  fix dot :: "char \<Rightarrow> bool" and o' :: char and os close :: string and c :: char
    and s :: string and x2 :: "string \<times> string" and g rest :: string
  assume "lazyUntil dot close (drop (length os) s) = Some x2" and "(g, rest) = x2"
  then have "length rest \<le> length (drop (length os) s)"
    using lazyUntil_length [of dot close "drop (length os) s" g rest] by simp
  then show "((dot, o', os, close, rest), (dot, o', os, close, c # s)) \<in>
      measure (\<lambda>(dot, o', os, close, s). length s)"
    by simp
qed simp_all

text \<open>The placeholder pattern: \<open>.\<close> stops at a line terminator.\<close>

definition scanPlaceholders :: "string \<Rightarrow> (char + string) list" where
  "scanPlaceholders txt =
     scanDelimited (\<lambda>c. \<not> isLineTerminator c) CHR ''{'' ''{'' ''}}'' txt"

text \<open>The instruction-marker pattern: with the \<open>s\<close> flag \<open>.\<close> matches every character.\<close>

definition scanSOPs :: "string \<Rightarrow> (char + string) list" where
  "scanSOPs txt = scanDelimited (\<lambda>c. True) CHR ''['' ''SOP:'' '']'' txt"

text \<open>The first groups of the matches.\<close>

fun groups :: "(char + string) list \<Rightarrow> string list" where
  "groups [] = []"
| "groups (Inl c # segs) = groups segs"
| "groups (Inr g # segs) = g # groups segs"

text \<open>\<open>txt.replace(pattern, f)\<close>: every match is replaced by \<open>f\<close> of its first group.\<close>

fun replaceMatches :: "(string \<Rightarrow> string) \<Rightarrow> (char + string) list \<Rightarrow> string" where
  "replaceMatches f [] = []"
| "replaceMatches f (Inl c # segs) = c # replaceMatches f segs"
| "replaceMatches f (Inr g # segs) = f g @ replaceMatches f segs"

section \<open>Conversion of values to strings\<close>

text \<open>\<open>String(n)\<close> for an integer \<open>n\<close> of magnitude below \<open>10^21\<close>: the decimal digits.\<close>

fun natToString :: "nat \<Rightarrow> string" where
  "natToString n =
     (if n < 10 then [char_of (48 + n)]
      else natToString (n div 10) @ [char_of (48 + n mod 10)])"

declare natToString.simps [simp del]

definition intToString :: "int \<Rightarrow> string" where
  "intToString i = (if i < 0 then CHR ''-'' # natToString (nat (- i)) else natToString (nat i))"

text \<open>The source text of a built-in function, as Node prints it.\<close>

definition nativeFunctionText :: "string \<Rightarrow> string" where
  "nativeFunctionText k =
     ''function '' @ (if k = ''constructor'' then ''Object'' else k) @ ''() { [native code] }''"

definition hexDigit :: "nat \<Rightarrow> char" where
  "hexDigit n = (if n < 10 then char_of (48 + n) else char_of (87 + n))"

text \<open>\<open>JSON.stringify\<close> of one character of a string.\<close>

definition jsonEscapeChar :: "char \<Rightarrow> string" where
  "jsonEscapeChar c =
     (if code c = 34 then [CHR 0x5C, CHR 0x22]
      else if code c = 92 then [CHR 0x5C, CHR 0x5C]
      else if code c = 8 then [CHR 0x5C, CHR ''b'']
      else if code c = 12 then [CHR 0x5C, CHR ''f'']
      else if code c = 10 then [CHR 0x5C, CHR ''n'']
      else if code c = 13 then [CHR 0x5C, CHR ''r'']
      else if code c = 9 then [CHR 0x5C, CHR ''t'']
      else if code c < 32
      then [CHR 0x5C, CHR ''u'', CHR ''0'', CHR ''0'', hexDigit (code c div 16), hexDigit (code c mod 16)]
      else [c])"

definition jsonQuote :: "string \<Rightarrow> string" where
  "jsonQuote s = [CHR 0x22] @ concat (map jsonEscapeChar s) @ [CHR 0x22]"

text \<open>\<open>JSON.stringify(v)\<close>, without indentation.  The only inherited member that is an
  object is \<open>__proto__\<close>, the prototype itself, which has no enumerable property; a
  function has no JSON text and is not reached by the callers.\<close>

fun jsonStringify :: "jsval \<Rightarrow> string" where
  "jsonStringify JNull = ''null''"
| "jsonStringify (JBool b) = (if b then ''true'' else ''false'')"
| "jsonStringify (JNum n) = intToString n"
| "jsonStringify (JStr s) = jsonQuote s"
| "jsonStringify (JArr xs) = ''['' @ joinWith '','' (map jsonStringify xs) @ '']''"
| "jsonStringify (JObj entries) =
     ''{'' @ joinWith '','' (map (\<lambda>kv. jsonQuote (fst kv) @ '':'' @ jsonStringify (snd kv)) entries) @ ''}''"
| "jsonStringify (JInherited k) = ''{}''"

text \<open>\<open>String(v)\<close>.\<close>

fun toStringJS :: "jsval \<Rightarrow> string" where
  "toStringJS JNull = ''null''"
| "toStringJS (JBool b) = (if b then ''true'' else ''false'')"
| "toStringJS (JNum n) = intToString n"
| "toStringJS (JStr s) = s"
| "toStringJS (JArr xs) =
     joinWith '','' (map (\<lambda>x. case x of JNull \<Rightarrow> [] | _ \<Rightarrow> toStringJS x) xs)"
| "toStringJS (JObj entries) = ''[object Object]''"
| "toStringJS (JInherited k) =
     (if k = ''__proto__'' then ''[object Object]'' else nativeFunctionText k)"

text \<open>\<open>xs.join(sep)\<close>: \<open>null\<close> elements give the empty string.\<close>

definition joinArray :: "string \<Rightarrow> jsval list \<Rightarrow> string" where
  "joinArray sep xs = joinWith sep (map (\<lambda>x. case x of JNull \<Rightarrow> [] | _ \<Rightarrow> toStringJS x) xs)"

section \<open>Template blocks\<close>

text \<open>
  An item of a \<open>rich_text\<close> array, with \<open>rt.plain_text\<close> and \<open>rt.text?.content\<close>; the
  payload \<open>block[block.type]\<close> of a block, with its \<open>rich_text\<close> array, its \<open>text\<close>
  string, and the \<open>icon\<close> and \<open>color\<close> of a callout; a block.  A block carries the
  payload of its own type only.
\<close>

record richText =
  plain_text :: "string option"
  text_content :: "string option"

record blockData =
  rich_text :: "richText list option"
  textProp :: "string option"
  icon :: "string option"
  color :: "string option"

record block =
  btype :: string
  bdata :: "blockData option"

text \<open>\<open>a || b\<close> on optional strings: the empty string is falsy.\<close>

definition orElse :: "string option \<Rightarrow> string option \<Rightarrow> string option" where
  "orElse a b = (case a of Some s \<Rightarrow> if s \<noteq> [] then Some s else b | None \<Rightarrow> b)"

definition extractTextFromBlock :: "block \<Rightarrow> string" where
  "extractTextFromBlock blk =
     (case bdata blk of
        None \<Rightarrow> []
      | Some d \<Rightarrow>
          (case rich_text d of
             Some rts \<Rightarrow>
               concat (map (\<lambda>rt. case orElse (plain_text rt) (orElse (text_content rt) (Some []))
                                  of Some s \<Rightarrow> s | None \<Rightarrow> []) rts)
           | None \<Rightarrow>
               (case textProp d of
                  Some s \<Rightarrow> s
                | None \<Rightarrow> [])))"

section \<open>Template parser: \<open>SOPParser\<close>\<close>

text \<open>\<open>s.replace(/\[SOP:\s*/i, '')\<close>: the first occurrence, in any letter case, with the
  white space after it.\<close>

fun stripSOPPrefix :: "string \<Rightarrow> string" where
  "stripSOPPrefix [] = []"
| "stripSOPPrefix (c # s) =
     (if toLowerCase (take 5 (c # s)) = ''[sop:'' then dropWhile isSpace (drop 5 (c # s))
      else c # stripSOPPrefix s)"

text \<open>\<open>s.replace(/\]$/, '')\<close>.\<close>

definition stripFinalBracket :: "string \<Rightarrow> string" where
  "stripFinalBracket s = (if s \<noteq> [] \<and> last s = CHR '']'' then butlast s else s)"

text \<open>The instruction text of a match \<open>[SOP:g]\<close>.\<close>

definition sopContent :: "string \<Rightarrow> string" where
  "sopContent g = trim (stripFinalBracket (stripSOPPrefix (''[SOP:'' @ g @ '']'')))"

text \<open>\<open>extractSOP\<close>: the first match, \<open>None\<close> for \<open>null\<close>.\<close>

definition extractSOP :: "string \<Rightarrow> string option" where
  "extractSOP txt = (case groups (scanSOPs txt) of [] \<Rightarrow> None | g # gs \<Rightarrow> Some (sopContent g))"

definition extractAllSOPs :: "string \<Rightarrow> string list" where
  "extractAllSOPs txt = map sopContent (groups (scanSOPs txt))"

definition extractVariables :: "string \<Rightarrow> string list" where
  "extractVariables txt = map trim (groups (scanPlaceholders txt))"

definition conditionalPatterns :: "string list" where
  "conditionalPatterns =
     [''(if applicable)'', ''(if exists)'', ''(optional)'', ''(if available)'',
      ''(if provided)'', ''(conditional)'']"

text \<open>\<open>isConditional\<close>: the patterns are literal and matched in any letter case.\<close>

definition isConditionalText :: "string \<Rightarrow> bool" where
  "isConditionalText txt = list_ex (\<lambda>p. includesStr (toLowerCase txt) p) conditionalPatterns"

record contentBlock =
  blockType :: string
  originalBlock :: block
  content :: string
  sops :: "string list"
  variables :: "string list"
  isConditional :: bool

record tsection =
  kind :: string
  level :: string
  title :: string
  sectionBlock :: block
  sectionSops :: "string list"
  sectionVariables :: "string list"
  sectionContent :: "contentBlock list"
  sectionIsConditional :: bool

definition isHeadingType :: "string \<Rightarrow> bool" where
  "isHeadingType t = (t = ''heading_1'' \<or> t = ''heading_2'' \<or> t = ''heading_3'')"

text \<open>\<open>!blockContent || blockContent.trim() === ''\<close>.\<close>

definition isEmptyBlock :: "block \<Rightarrow> bool" where
  "isEmptyBlock blk = (extractTextFromBlock blk = [] \<or> trim (extractTextFromBlock blk) = [])"

text \<open>The section a heading starts.\<close>

definition headingSection :: "block \<Rightarrow> tsection" where
  "headingSection blk =
     \<lparr>kind = ''section'', level = btype blk, title = extractTextFromBlock blk,
      sectionBlock = blk, sectionSops = [],
      sectionVariables = extractVariables (extractTextFromBlock blk),
      sectionContent = [],
      sectionIsConditional = isConditionalText (extractTextFromBlock blk)\<rparr>"

text \<open>\<open>explicitSOP || sopInstruction\<close> for a toggle block.\<close>

definition toggleSOP :: "block \<Rightarrow> string" where
  "toggleSOP blk =
     (case orElse (extractSOP (extractTextFromBlock blk)) None of
        Some s \<Rightarrow> s
      | None \<Rightarrow> trim (extractTextFromBlock blk))"

text \<open>The implicit section of an instruction that precedes every section.\<close>

definition sopSection :: "block \<Rightarrow> tsection" where
  "sopSection blk =
     \<lparr>kind = ''sop_block'', level = ''instruction'', title = ''Process Instruction'',
      sectionBlock = blk, sectionSops = [toggleSOP blk], sectionVariables = [],
      sectionContent = [], sectionIsConditional = False\<rparr>"

definition makeContentBlock :: "block \<Rightarrow> contentBlock" where
  "makeContentBlock blk =
     \<lparr>blockType = btype blk, originalBlock = blk, content = extractTextFromBlock blk,
      sops = extractAllSOPs (extractTextFromBlock blk),
      variables = extractVariables (extractTextFromBlock blk),
      isConditional = isConditionalText (extractTextFromBlock blk)\<rparr>"

text \<open>The implicit section of content that precedes every section.\<close>

definition rootSection :: "block \<Rightarrow> tsection" where
  "rootSection blk =
     \<lparr>kind = ''content'', level = ''root'', title = ''Template Content'',
      sectionBlock = blk, sectionSops = [], sectionVariables = [],
      sectionContent = [makeContentBlock blk], sectionIsConditional = False\<rparr>"

text \<open>
  The loop of \<open>parseTemplate\<close> over the blocks.  The state is the list \<open>sections\<close> (here \<open>pushed\<close>) and
  \<open>currentSection\<close> (\<open>None\<close> for \<open>null\<close>); after the loop the current section, if any, is
  pushed.
\<close>

fun parseBlocks :: "block list \<Rightarrow> tsection list \<Rightarrow> tsection option \<Rightarrow> tsection list" where
  "parseBlocks [] pushed currentSection =
     (case currentSection of None \<Rightarrow> pushed | Some cur \<Rightarrow> pushed @ [cur])"
| "parseBlocks (blk # blocks) pushed currentSection =
     (if isEmptyBlock blk then parseBlocks blocks pushed currentSection
      else if isHeadingType (btype blk)
      then parseBlocks blocks
             (case currentSection of None \<Rightarrow> pushed | Some cur \<Rightarrow> pushed @ [cur])
             (Some (headingSection blk))
      else if btype blk = ''toggle''
      then (if trim (extractTextFromBlock blk) \<noteq> []
            then (case currentSection of
                    Some cur \<Rightarrow>
                      parseBlocks blocks pushed
                        (Some (cur\<lparr>sectionSops := sectionSops cur @ [toggleSOP blk]\<rparr>))
                  | None \<Rightarrow> parseBlocks blocks pushed (Some (sopSection blk)))
            else parseBlocks blocks pushed currentSection)
      else (case currentSection of
              Some cur \<Rightarrow>
                parseBlocks blocks pushed
                  (Some (cur\<lparr>sectionContent := sectionContent cur @ [makeContentBlock blk]\<rparr>))
            | None \<Rightarrow> parseBlocks blocks pushed (Some (rootSection blk))))"

record parsedTemplate =
  sections :: "tsection list"
  totalSections :: nat
  totalSOPs :: nat
  totalVariables :: nat
  conditionalSections :: nat

definition countTotalSOPs :: "tsection list \<Rightarrow> nat" where
  "countTotalSOPs ss =
     sum_list (map (\<lambda>s. length (sectionSops s) +
                         sum_list (map (\<lambda>c. length (sops c)) (sectionContent s))) ss)"

definition countTotalVariables :: "tsection list \<Rightarrow> nat" where
  "countTotalVariables ss =
     length (remdups (concat (map (\<lambda>s. sectionVariables s @
                                        concat (map variables (sectionContent s))) ss)))"

definition parseTemplate :: "block list \<Rightarrow> parsedTemplate" where
  "parseTemplate blocks =
     (let ss = parseBlocks blocks [] None
      in \<lparr>sections = ss, totalSections = length ss, totalSOPs = countTotalSOPs ss,
          totalVariables = countTotalVariables ss,
          conditionalSections = length (filter sectionIsConditional ss)\<rparr>)"

section \<open>Template applier: \<open>TemplateApplier\<close>\<close>

text \<open>The replacement of one placeholder with first group \<open>varName\<close>.\<close>

definition renderVariable :: "brief \<Rightarrow> string \<Rightarrow> string" where
  "renderVariable briefData varName =
     (case getValueFromBrief (trim varName) briefData of
        JNull \<Rightarrow> ''['' @ varName @ '']''
      | JArr xs \<Rightarrow> joinArray '', '' xs
      | JObj entries \<Rightarrow> jsonStringify (JObj entries)
      | JInherited k \<Rightarrow>
          (if k = ''__proto__'' then jsonStringify (JInherited k) else toStringJS (JInherited k))
      | v \<Rightarrow> toStringJS v)"

definition replaceVariables :: "string \<Rightarrow> brief \<Rightarrow> string" where
  "replaceVariables txt briefData =
     replaceMatches (renderVariable briefData) (scanPlaceholders txt)"

definition removeSOPMarkers :: "string \<Rightarrow> string" where
  "removeSOPMarkers txt = trim (replaceMatches (\<lambda>g. []) (scanSOPs txt))"

text \<open>\<open>value !== null && value !== undefined && value !== ''\<close> for a resolved value.\<close>

definition hasValue :: "jsval \<Rightarrow> bool" where
  "hasValue v = (v \<noteq> JNull \<and> v \<noteq> JStr [])"

definition sectionHasData :: "tsection \<Rightarrow> brief \<Rightarrow> bool" where
  "sectionHasData sec briefData =
     list_ex (\<lambda>varName. hasValue (getValueFromBrief varName briefData))
       (sectionVariables sec @ concat (map variables (sectionContent sec)))"

definition contentHasData :: "contentBlock \<Rightarrow> brief \<Rightarrow> bool" where
  "contentHasData cb briefData =
     (if length (variables cb) = 0 then True
      else list_ex (\<lambda>varName. hasValue (getValueFromBrief varName briefData)) (variables cb))"

text \<open>An output block: its type, the text of its single rich-text run, and the icon and
  colour of a callout.\<close>

record outBlock =
  otype :: string
  otext :: string
  oicon :: "string option"
  ocolor :: "string option"

definition textBlock :: "string \<Rightarrow> string \<Rightarrow> outBlock" where
  "textBlock t c = \<lparr>otype = t, otext = c, oicon = None, ocolor = None\<rparr>"

definition createHeadingBlock :: "string \<Rightarrow> string \<Rightarrow> brief \<Rightarrow> outBlock" where
  "createHeadingBlock lvl ttl briefData = textBlock lvl (replaceVariables ttl briefData)"

text \<open>\<open>createParagraph\<close>: \<open>None\<close> for \<open>null\<close>.\<close>

definition createParagraph :: "string \<Rightarrow> outBlock option" where
  "createParagraph c = (if c = [] \<or> trim c = [] then None else Some (textBlock ''paragraph'' c))"

text \<open>The name of the default icon, the clipboard emoji.\<close>

definition defaultCalloutIcon :: string where
  "defaultCalloutIcon = ''emoji:clipboard''"

text \<open>\<open>createCallout\<close>; \<open>originalBlock?.callout\<close> is the payload of a callout block.\<close>

definition createCallout :: "string \<Rightarrow> block \<Rightarrow> outBlock" where
  "createCallout c orig =
     (let calloutData = (if btype orig = ''callout'' then bdata orig else None)
      in \<lparr>otype = ''callout'', otext = c,
          oicon = (case orElse (case calloutData of Some d \<Rightarrow> icon d | None \<Rightarrow> None)
                                (Some defaultCalloutIcon) of Some i \<Rightarrow> Some i | None \<Rightarrow> None),
          ocolor = (case orElse (case calloutData of Some d \<Rightarrow> color d | None \<Rightarrow> None)
                                 (Some ''blue_background'') of Some i \<Rightarrow> Some i | None \<Rightarrow> None)\<rparr>)"

definition createContentBlock :: "contentBlock \<Rightarrow> brief \<Rightarrow> outBlock option" where
  "createContentBlock cb briefData =
     (let c = removeSOPMarkers (replaceVariables (content cb) briefData)
      in if blockType cb = ''paragraph'' then createParagraph c
         else if isHeadingType (blockType cb) then Some (textBlock (blockType cb) c)
         else if blockType cb = ''callout'' then Some (createCallout c (originalBlock cb))
         else if blockType cb = ''quote'' then Some (textBlock ''quote'' c)
         else if blockType cb = ''bulleted_list_item'' then Some (textBlock ''bulleted_list_item'' c)
         else if blockType cb = ''numbered_list_item'' then Some (textBlock ''numbered_list_item'' c)
         else if blockType cb = ''toggle'' then Some (textBlock ''toggle'' c)
         else if blockType cb = ''divider'' then Some (textBlock ''divider'' [])
         else createParagraph c)"

text \<open>The blocks one content block of a section adds to the output.\<close>

definition applyContent :: "brief \<Rightarrow> contentBlock \<Rightarrow> outBlock list" where
  "applyContent briefData cb =
     (if isConditional cb \<and> \<not> contentHasData cb briefData then []
      else (case createContentBlock cb briefData of None \<Rightarrow> [] | Some b \<Rightarrow> [b]))"

text \<open>The blocks one section adds to the output: the body of the loop of
  \<open>applyTemplate\<close>.\<close>

definition applySection :: "brief \<Rightarrow> tsection \<Rightarrow> outBlock list" where
  "applySection briefData sec =
     (if sectionIsConditional sec \<and> \<not> sectionHasData sec briefData then []
      else (if level sec \<noteq> [] \<and> title sec \<noteq> []
            then [createHeadingBlock (level sec) (title sec) briefData] else []) @
           concat (map (applyContent briefData) (sectionContent sec)))"

text \<open>\<open>applyTemplate\<close>; the semantic mapping is not used.\<close>

definition applyTemplate :: "parsedTemplate \<Rightarrow> brief \<Rightarrow> outBlock list" where
  "applyTemplate parsed briefData = concat (map (applySection briefData) (sections parsed))"

section \<open>Vocabulary for the properties of the template parser\<close>

text \<open>The current section as a list: what the parser pushes when a heading or the end of
  the template closes it.\<close>

definition currentList :: "tsection option \<Rightarrow> tsection list" where
  "currentList cur = (case cur of None \<Rightarrow> [] | Some c \<Rightarrow> [c])"

text \<open>The texts of the non-empty heading blocks of a template, in order.\<close>

definition headingTexts :: "block list \<Rightarrow> string list" where
  "headingTexts bs =
     map extractTextFromBlock (filter (\<lambda>b. \<not> isEmptyBlock b \<and> isHeadingType (btype b)) bs)"


text \<open>The titles of the sections that a heading started, in order.\<close>

definition sectionTitles :: "tsection list \<Rightarrow> string list" where
  "sectionTitles ss = map title (filter (\<lambda>s. kind s = ''section'') ss)"

text \<open>A block of type \<open>t\<close> with one run of plain text.\<close>

definition plainBlock :: "string \<Rightarrow> string \<Rightarrow> block" where
  "plainBlock t s =
     \<lparr>btype = t,
      bdata = Some \<lparr>rich_text = Some [\<lparr>plain_text = Some s, text_content = None\<rparr>],
                    textProp = None, icon = None, color = None\<rparr>\<rparr>"

text \<open>What every section of a parsed template satisfies: a level and a title that are
  not empty, a level other than \<open>toggle\<close>, and no toggle among the content blocks.\<close>

definition parsedSection :: "tsection \<Rightarrow> bool" where
  "parsedSection s =
     (level s \<noteq> [] \<and> title s \<noteq> [] \<and> level s \<noteq> ''toggle'' \<and>
      list_all (\<lambda>c. blockType c \<noteq> ''toggle'') (sectionContent s))"

section \<open>Vocabulary for the properties of the replacement of variables\<close>

text \<open>The text contains a placeholder: the placeholder pattern matches somewhere.\<close>

definition hasPlaceholder :: "string \<Rightarrow> bool" where
  "hasPlaceholder txt = (groups (scanPlaceholders txt) \<noteq> [])"




section \<open>Conflict detector: \<open>ConflictDetector\<close>\<close>

text \<open>
  Every detector works on \<open>JSON.stringify(briefData)\<close>.  The functions below take that
  text; the detectors proper apply them to the JSON text of the brief.
\<close>

record conflict =
  ctype :: string
  severity :: string
  description :: string
  recommendation :: string
  impact :: string

text \<open>\<open>parseInt\<close> of a string of digits: its value.  JavaScript represents the value
  exactly below \<open>2^53\<close>; the empty string gives \<open>NaN\<close>, which the callers test
  separately.\<close>

definition parseDigits :: "string \<Rightarrow> nat" where
  "parseDigits ds = foldl (\<lambda>a c. 10 * a + (code c - 48)) 0 ds"

text \<open>
  The pattern \<open>/(\d+)\s*(?:second|sec|s\b)/gi\<close> tried at the start of a text: the digits of
  the match and the text after the match.  The digits and the white space are taken
  greedily; giving some back never helps, since a digit or a white-space character begins
  none of the alternatives.
\<close>

definition durationAt :: "string \<Rightarrow> (string \<times> string) option" where
  "durationAt s =
     (let digits = takeWhile isDigit s;
          unit = dropWhile isSpace (dropWhile isDigit s)
      in if digits = [] then None
         else if toLowerCase (take 6 unit) = ''second'' then Some (digits, drop 6 unit)
         else if toLowerCase (take 3 unit) = ''sec'' then Some (digits, drop 3 unit)
         else if toLowerCase (take 1 unit) = ''s'' \<and> \<not> list_ex isWordChar (take 1 (drop 1 unit))
         then Some (digits, drop 1 unit)
         else None)"

lemma durationAt_length: "durationAt s = Some (d, rest) \<Longrightarrow> length rest < length s"
proof -
  assume a: "durationAt s = Some (d, rest)"
  then have ne: "takeWhile isDigit s \<noteq> []" by (auto simp: durationAt_def Let_def split: if_splits)
  have "length (takeWhile isDigit s) + length (dropWhile isDigit s) = length s"
    by (metis length_append takeWhile_dropWhile_id)
  with ne have "length (dropWhile isDigit s) < length s" by (cases "takeWhile isDigit s") auto
  moreover have "length (dropWhile isSpace (dropWhile isDigit s)) \<le> length (dropWhile isDigit s)"
    by (simp add: length_dropWhile_le)
  moreover from a have "length rest \<le> length (dropWhile isSpace (dropWhile isDigit s))"
    by (auto simp: durationAt_def Let_def split: if_splits)
  ultimately show ?thesis by simp
qed

text \<open>The digits of the successive matches of the pattern in a text:
  \<open>briefText.match(...)\<close> followed by \<open>m.match(/\d+/)[0]\<close> on every match.\<close>

function durationMatches :: "string \<Rightarrow> string list" where
  "durationMatches [] = []"
| "durationMatches (c # s) =
     (case durationAt (c # s) of
        Some (d, rest) \<Rightarrow> d # durationMatches rest
      | None \<Rightarrow> durationMatches s)"
  by pat_completeness auto
termination
proof (relation "measure length")
  show "wf (measure length)" by simp
next
  fix c :: char and s :: string and x2 :: "string \<times> string" and d rest :: string
  assume "durationAt (c # s) = Some x2" and "(d, rest) = x2"
  then have "length rest < length (c # s)" using durationAt_length [of "c # s" d rest] by simp
  then show "(rest, c # s) \<in> measure length" by simp
qed simp

text \<open>\<open>[...new Set(xs)]\<close>: the distinct elements in the order of their first occurrence.\<close>

definition uniqueInOrder :: "'a list \<Rightarrow> 'a list" where
  "uniqueInOrder xs = rev (remdups (rev xs))"

text \<open>The duration part of \<open>detectTechnicalConflicts\<close>.\<close>

definition durationConflicts :: "string \<Rightarrow> conflict list" where
  "durationConflicts briefText =
     (let durationMatches = durationMatches briefText
      in if length durationMatches > 1
         then (let unique = uniqueInOrder (map parseDigits durationMatches)
               in if length unique > 1
                  then [\<lparr>ctype = ''technical_contradiction'', severity = ''medium'',
                         description = ''Multiple different durations mentioned: '' @
                           joinWith ''s, '' (map natToString unique) @ ''s'',
                         recommendation = ''Clarify: Which duration is correct?'',
                         impact = ''Freelancer confusion - may deliver wrong length''\<rparr>]
                  else [])
         else [])"

text \<open>A literal pattern tested with the \<open>i\<close> flag.\<close>

definition includesIgnoreCase :: "string \<Rightarrow> string \<Rightarrow> bool" where
  "includesIgnoreCase s p = includesStr (toLowerCase s) p"

text \<open>The aspect-ratio part of \<open>detectTechnicalConflicts\<close>.\<close>

definition aspectRatioConflicts :: "string \<Rightarrow> conflict list" where
  "aspectRatioConflicts briefText =
     (let hasVertical = list_ex (includesIgnoreCase briefText) [''vertical'', ''9:16'', ''1080x1920''];
          hasHorizontal = list_ex (includesIgnoreCase briefText) [''horizontal'', ''16:9'', ''1920x1080''];
          hasSquare = list_ex (includesIgnoreCase briefText) [''square'', ''1:1'', ''1080x1080''];
          aspectRatios = length (filter id [hasVertical, hasHorizontal, hasSquare])
      in if aspectRatios > 1
         then [\<lparr>ctype = ''technical_contradiction'', severity = ''medium'',
                description = ''Multiple aspect ratios mentioned (vertical, horizontal, square)'',
                recommendation = ''Clarify: Are multiple formats needed, or is one primary?'',
                impact = ''May require additional deliverables not accounted for in timeline/budget''\<rparr>]
         else [])"

definition technicalConflicts :: "string \<Rightarrow> conflict list" where
  "technicalConflicts briefText = durationConflicts briefText @ aspectRatioConflicts briefText"


text \<open>
  \<open>estimateDaysAvailable\<close>.  The branch that reads a date field depends on the clock; its
  result is the parameter \<open>dueInDays\<close>: \<open>None\<close> when the brief has no date field or the
  date is invalid, else the number of days.
\<close>

definition estimateDaysAvailable :: "string \<Rightarrow> nat option \<Rightarrow> nat option" where
  "estimateDaysAvailable briefText dueInDays =
     (let lower = toLowerCase briefText
      in if includesStr lower ''today'' \<or> includesStr lower ''immediate'' then Some 0
         else if includesStr lower ''tomorrow'' then Some 1
         else if includesStr lower ''this week'' then Some 3
         else if includesStr lower ''next week'' then Some 7
         else if includesStr lower ''two weeks'' then Some 14
         else if includesStr lower ''month'' then Some 30
         else dueInDays)"

definition scopeIndicators :: "string list" where
  "scopeIndicators =
     [''photoshoot'', ''shoot'', ''filming'', ''editing'', ''post-production'',
      ''motion graphics'', ''animation'', ''color grading'', ''sound design'',
      ''multiple formats'', ''various platforms'']"

definition urgentIndicators :: "string list" where
  "urgentIndicators = [''today'', ''tomorrow'', ''urgent'', ''asap'', ''24 hour'', ''immediate'']"

text \<open>\<open>daysAvailable && daysAvailable <= n\<close> and the like: \<open>null\<close> and zero are falsy.\<close>

definition daysSatisfy :: "nat option \<Rightarrow> (nat \<Rightarrow> bool) \<Rightarrow> bool" where
  "daysSatisfy daysAvailable p = (case daysAvailable of None \<Rightarrow> False | Some n \<Rightarrow> n \<noteq> 0 \<and> p n)"

definition daysText :: "nat option \<Rightarrow> string" where
  "daysText daysAvailable = (case daysAvailable of None \<Rightarrow> ''null'' | Some n \<Rightarrow> natToString n)"

definition detectTimelineConflictsText :: "string \<Rightarrow> string \<Rightarrow> nat option \<Rightarrow> conflict list" where
  "detectTimelineConflictsText text0 complexity dueInDays =
     (let briefText = toLowerCase text0;
          scopeCount = length (filter (includesStr briefText) scopeIndicators);
          isUrgent = list_ex (includesStr briefText) urgentIndicators;
          daysAvailable = estimateDaysAvailable text0 dueInDays
      in (if isUrgent \<or> daysSatisfy daysAvailable (\<lambda>n. n \<le> 2)
          then (if scopeCount \<ge> 3
                then [\<lparr>ctype = ''timeline_scope'', severity = ''high'',
                       description = ''Timeline is '' @
                         (if isUrgent then ''urgent''
                          else ''only '' @ daysText daysAvailable @ '' days'') @
                         '', but scope includes '' @ natToString scopeCount @
                         '' production stages (photoshoot, editing, motion graphics, etc.). This is likely not feasible.'',
                       recommendation = ''Urgent client conversation needed: Either extend timeline or reduce scope'',
                       impact = ''High risk of missed deadline or quality compromise''\<rparr>]
                else if scopeCount \<ge> 2 \<and> complexity = ''3-Course Meal''
                then [\<lparr>ctype = ''timeline_scope'', severity = ''medium'',
                       description = ''Complex project ('' @ complexity @
                         '') with tight timeline and multi-stage production'',
                       recommendation = ''Consider prioritizing must-have deliverables vs nice-to-haves'',
                       impact = ''Possible deadline pressure''\<rparr>]
                else [])
          else []) @
         (if daysSatisfy daysAvailable (\<lambda>n. n > 30) \<and> scopeCount \<le> 1 \<and> complexity = ''Cup of Tea''
          then [\<lparr>ctype = ''expectation_reality'', severity = ''low'',
                 description = ''Simple '' @ complexity @ '' project with '' @
                   daysText daysAvailable @ ''+ day timeline seems generous'',
                 recommendation = ''Confirm if there are dependencies or milestones not mentioned'',
                 impact = ''Possible resource inefficiency''\<rparr>]
          else []))"

text \<open>The budget pattern (a pound, dollar or euro sign, then one or more digits or commas)
  tried at the start of a text: the characters of the
  match after the currency sign.  The euro sign is a code unit above 255.\<close>

definition isCurrencySign :: "char \<Rightarrow> bool" where
  "isCurrencySign c = (code c = 163 \<or> code c = 36)"

definition budgetAt :: "string \<Rightarrow> string option" where
  "budgetAt s =
     (case s of
        [] \<Rightarrow> None
      | c # rest \<Rightarrow>
          (if isCurrencySign c \<and> takeWhile (\<lambda>d. isDigit d \<or> d = CHR '','') rest \<noteq> []
           then Some (takeWhile (\<lambda>d. isDigit d \<or> d = CHR '','') rest) else None))"

text \<open>The first match in a text.\<close>

fun budgetMatch :: "string \<Rightarrow> string option" where
  "budgetMatch [] = None"
| "budgetMatch (c # s) =
     (case budgetAt (c # s) of Some m \<Rightarrow> Some m | None \<Rightarrow> budgetMatch s)"

text \<open>\<open>parseInt\<close> of the match without currency sign and commas, or \<open>null\<close>; \<open>NaN\<close> (no digit at
  all) and zero are falsy for every caller, and are \<open>None\<close> here together with \<open>null\<close>.\<close>

definition parseBudget :: "string \<Rightarrow> nat option" where
  "parseBudget lower =
     (case budgetMatch lower of
        None \<Rightarrow> None
      | Some m \<Rightarrow>
          (if filter isDigit m = [] \<or> parseDigits (filter isDigit m) = 0 then None
           else Some (parseDigits (filter isDigit m))))"

text \<open>An entry of \<open>expensiveElements\<close>: term, cost, name.\<close>

definition expensiveElements :: "(string \<times> nat \<times> string) list" where
  "expensiveElements =
     [(''photoshoot'', 1000, ''Professional photoshoot''),
      (''video editing'', 800, ''Video editing''),
      (''motion graphics'', 1200, ''Motion graphics''),
      (''animation'', 1500, ''Animation''),
      (''custom music'', 500, ''Custom music composition''),
      (''color grading'', 400, ''Professional color grading''),
      (''3d'', 2000, ''3D work''),
      (''drone'', 600, ''Drone footage'')]"

text \<open>\<open>detectBudgetConflicts\<close>.  \<open>estimatedCost > budget * 1.2\<close> on these integers is
  \<open>5 * estimatedCost > 6 * budget\<close>: the double product is exact where \<open>budget * 1.2\<close> is
  an integer and otherwise lies within rounding of a non-integer.\<close>

definition detectBudgetConflictsText :: "string \<Rightarrow> string \<Rightarrow> conflict list" where
  "detectBudgetConflictsText text0 complexity =
     (let briefText = toLowerCase text0
      in case parseBudget briefText of
           None \<Rightarrow> []
         | Some budget \<Rightarrow>
             (let requiredElements = filter (\<lambda>el. includesStr briefText (fst el)) expensiveElements;
                  estimatedCost = foldl (\<lambda>sum el. sum + fst (snd el)) 0 requiredElements
              in (if 5 * estimatedCost > 6 * budget
                  then [\<lparr>ctype = ''budget_scope'', severity = ''high'',
                         description = ''Budget is '' @ [CHR 0xA3] @ natToString budget @
                           '' but scope suggests ~'' @ [CHR 0xA3] @ natToString estimatedCost @
                           '' worth of work: '' @
                           joinWith '', '' (map (\<lambda>e. snd (snd e)) requiredElements),
                         recommendation = ''Critical: Scope needs to be reduced or budget increased significantly'',
                         impact = ''Project likely unprofitable or undeliverable at current budget''\<rparr>]
                  else if estimatedCost > budget
                  then [\<lparr>ctype = ''budget_scope'', severity = ''medium'',
                         description = ''Budget ('' @ [CHR 0xA3] @ natToString budget @
                           '') is tight for requested scope (est. '' @ [CHR 0xA3] @
                           natToString estimatedCost @ '')'',
                         recommendation = ''Review scope priorities with client - some elements may need to be optional'',
                         impact = ''Thin margins - monitor costs closely''\<rparr>]
                  else []) @
                 (if budget > 5000 \<and> complexity = ''Cup of Tea'' \<and> length requiredElements \<le> 1
                  then [\<lparr>ctype = ''expectation_reality'', severity = ''low'',
                         description = ''Simple '' @ complexity @ '' project with '' @ [CHR 0xA3] @
                           natToString budget @ '' budget seems generous'',
                         recommendation = ''Confirm scope - client may expect more than currently specified'',
                         impact = ''Possible scope creep risk if expectations unclear''\<rparr>]
                  else [])))"

definition specializedSkills :: "string list" where
  "specializedSkills =
     [''3d animation'', ''vfx'', ''visual effects'', ''compositing'', ''advanced color grading'',
      ''cinema camera'', ''red camera'', ''sound design'', ''audio mixing'', ''original score'']"

definition detectResourceConflictsText :: "string \<Rightarrow> conflict list" where
  "detectResourceConflictsText text0 =
     (let briefText = toLowerCase text0;
          requiresSpecialist = list_ex (includesStr briefText) specializedSkills;
          seemsSimple = (includesStr briefText ''simple'' \<or> includesStr briefText ''basic'' \<or>
                         includesStr briefText ''quick'')
      in if requiresSpecialist \<and> seemsSimple
         then [\<lparr>ctype = ''resource_mismatch'', severity = ''medium'',
                description = ''Brief mentions specialized skills (3D, VFX, etc.) but also describes project as '' @
                  [CHR 0x22] @ ''simple'' @ [CHR 0x22] @ '' or '' @ [CHR 0x22] @ ''quick'' @ [CHR 0x22],
                recommendation = ''Confirm complexity level - specialized work typically not '' @
                  [CHR 0x22] @ ''simple'' @ [CHR 0x22],
                impact = ''Possible misalignment on project complexity''\<rparr>]
         else [])"

definition premiumTerms :: "string list" where
  "premiumTerms = [''luxury'', ''high-end'', ''premium'', ''exclusive'', ''cinema'', ''commercial grade'']"

definition detectExpectationConflictsText :: "string \<Rightarrow> string \<Rightarrow> conflict list" where
  "detectExpectationConflictsText text0 complexity =
     (let briefText = toLowerCase text0;
          hasPremiumExpectations = list_ex (includesStr briefText) premiumTerms
      in if hasPremiumExpectations \<and>
            (case parseBudget briefText of None \<Rightarrow> False | Some budget \<Rightarrow> budget < 3000)
         then [\<lparr>ctype = ''expectation_reality'', severity = ''medium'',
                description = ''Client uses premium language ('' @
                  joinWith '', '' (filter (includesStr briefText) premiumTerms) @
                  '') but budget is under '' @ [CHR 0xA3] @ ''3k'',
                recommendation = ''Set expectations: Premium aesthetics typically require higher investment'',
                impact = ''Client satisfaction risk if expectations not aligned with budget reality''\<rparr>]
         else [])"

text \<open>\<open>detectConflicts\<close>, with the outcome of the date branch as third argument.\<close>

definition detectConflicts :: "brief \<Rightarrow> string \<Rightarrow> nat option \<Rightarrow> conflict list" where
  "detectConflicts briefData complexity dueInDays =
     (let briefText = jsonStringify (JObj briefData)
      in detectTimelineConflictsText briefText complexity dueInDays @
         detectBudgetConflictsText briefText complexity @
         technicalConflicts briefText @
         detectResourceConflictsText briefText @
         detectExpectationConflictsText briefText complexity)"

section \<open>Vocabulary for the properties of the conflict detector\<close>

text \<open>The values of the duration mentions found in a text.\<close>

definition durationValues :: "string \<Rightarrow> nat list" where
  "durationValues briefText = map parseDigits (durationMatches briefText)"

definition conflictTypes :: "string list" where
  "conflictTypes =
     [''timeline_scope'', ''budget_scope'', ''technical_contradiction'', ''resource_mismatch'',
      ''expectation_reality'']"

text \<open>A conflict with one of the five types, a severity, and a description, a
  recommendation and an impact statement that are not empty.\<close>

definition fullConflict :: "conflict \<Rightarrow> bool" where
  "fullConflict c =
     (ctype c \<in> set conflictTypes \<and> severity c \<in> set [''high'', ''medium'', ''low''] \<and>
      description c \<noteq> [] \<and> recommendation c \<noteq> [] \<and> impact c \<noteq> [])"

section \<open>Record creation with self-correction: \<open>processRequestAsync\<close>, step 9\<close>

text \<open>
  What one call of \<open>mcpClient.callTool('API-post-page', ...)\<close> can do: return a page
  (an object with an \<open>id\<close> that is no error object), return an error object with its
  message, throw, or return something else (\<open>null\<close>, or an object without \<open>id\<close> that is
  no error object and has no message).
\<close>

datatype postResult = Page string | ErrorObject string | Thrown string | Other

text \<open>What the round-trip through the reasoning service can do: fail (the call throws,
  or the answer is no JSON), or deliver corrected properties.\<close>

datatype llmResult = CorrectionFails | CorrectedProperties string

text \<open>
  The variables of the loop: \<open>createdPage\<close> (\<open>None\<close> for \<open>undefined\<close>), \<open>retryCount\<close>, and
  \<open>notionProperties\<close>; with them the properties sent by the successive creation calls and
  the number of round-trips through the reasoning service.
\<close>

record creation =
  createdPage :: "postResult option"
  retryCount :: nat
  notionProperties :: string
  sent :: "string list"
  corrections :: nat

definition maxRetries :: nat where
  "maxRetries = 2"

text \<open>
  The \<open>catch (error)\<close> clause of the loop, up to the decision to go on (\<open>Inl\<close>, with
  \<open>retryCount\<close> incremented) or to \<open>break\<close> (\<open>Inr\<close>).  While \<open>retryCount < maxRetries\<close> the
  reasoning service is asked for corrected properties.  A failed round-trip is caught by
  the inner \<open>catch\<close>, which breaks.  A successful one ends in the assignment
  \<open>notionProperties = JSON.parse(...)\<close>; \<open>notionProperties\<close> is declared \<open>const\<close>, so the
  assignment throws a \<open>TypeError\<close> inside the inner \<open>try\<close>, and the inner \<open>catch\<close>
  breaks as well.
\<close>

definition onError :: "(nat \<Rightarrow> llmResult) \<Rightarrow> creation \<Rightarrow> creation + creation" where
  "onError llm st =
     (if retryCount st < maxRetries
      then (case llm (corrections st) of
              CorrectionFails \<Rightarrow> Inr (st\<lparr>corrections := corrections st + 1\<rparr>)
            | CorrectedProperties p \<Rightarrow> Inr (st\<lparr>corrections := corrections st + 1\<rparr>))
      else Inl (st\<lparr>retryCount := retryCount st + 1\<rparr>))"






section \<open>Properties of the field resolver\<close>

lemma variations_due_date:
  "variations ''due_date'' =
     [Some ''due_date'', Some ''due date'', Some ''duedate'', Some ''dueDate'',
      Some ''due_date'', Some ''Due Date'']"
  by code_simp

text \<open>
  Claim C4.  For every value \<open>v\<close>, resolving \<open>due_date\<close> against the one-entry brief
  \<open>{"Due Date": v}\<close> and against the one-entry brief \<open>{"due date": v}\<close> returns \<open>v\<close> in both
  cases: the Title Case rewrite finds the first key, the underscore-to-space rewrite the
  second.
\<close>

theorem due_date_naming_variants:
  "getValueFromBrief ''due_date'' [(''Due Date'', v)] = v \<and>
   getValueFromBrief ''due_date'' [(''due date'', v)] = v"
  by (simp add: getValueFromBrief_def getProp_def objectPrototypeNames_def variations_due_date)

lemma firstEntry_None: "(firstEntry p b = None) = (\<not> list_ex (\<lambda>kv. p (fst kv)) b)"
  by (induction b) (auto simp: firstEntry_def)

lemma firstEntry_Some: "firstEntry p b = Some v \<Longrightarrow> v \<in> snd ` set b"
  by (induction b) (auto simp: firstEntry_def split: if_splits)

lemma getProp_None:
  "(getProp b k = None) = (k \<notin> fst ` set b \<and> k \<notin> set objectPrototypeNames)"
proof (cases "map_of b k")
  case None
  then have "k \<notin> fst ` set b" by (simp add: map_of_eq_None_iff)
  with None show ?thesis by (simp add: getProp_def)
next
  case (Some v)
  then have "k \<in> fst ` set b" by (metis map_of_eq_None_iff option.distinct(1))
  with Some show ?thesis by (simp add: getProp_def)
qed

lemma getProp_Some: "getProp b k = Some v \<Longrightarrow> v \<in> snd ` set b \<or> v = JInherited k"
proof (cases "map_of b k")
  case None
  assume "getProp b k = Some v"
  with None show ?thesis by (simp add: getProp_def split: if_splits)
next
  case (Some w)
  assume "getProp b k = Some v"
  with Some have "v = w" by (simp add: getProp_def)
  moreover from Some have "(k, w) \<in> set b" by (rule map_of_SomeD)
  ultimately show ?thesis by (metis imageI snd_conv)
qed

lemma firstDefined_None:
  "(firstDefined b vs = None) = (\<forall>k. Some k \<in> set vs \<longrightarrow> getProp b k = None)"
  by (induction b vs rule: firstDefined.induct) (auto split: option.splits)

lemma firstDefined_Some:
  "firstDefined b vs = Some v \<Longrightarrow> v \<in> snd ` set b \<or> (\<exists>k. v = JInherited k)"
  by (induction b vs rule: firstDefined.induct) (auto split: option.splits dest: getProp_Some)

lemma firstAlias_None:
  "(firstAlias als b = None) =
     (\<not> list_ex (\<lambda>kv. list_ex (\<lambda>alias. normalizeForComparison (fst kv) = normalizeForComparison alias) als) b)"
proof (induction als b rule: firstAlias.induct)
  case (1 b)
  then show ?case by (simp add: list_ex_iff)
next
  case (2 al aliases b)
  show ?case
  proof (cases "firstEntry (\<lambda>key. normalizeForComparison key = normalizeForComparison al) b")
    case None
    then have e: "firstAlias (al # aliases) b = firstAlias aliases b" by simp
    from None have "\<not> list_ex (\<lambda>kv. normalizeForComparison (fst kv) = normalizeForComparison al) b"
      using firstEntry_None [of "\<lambda>key. normalizeForComparison key = normalizeForComparison al" b]
      by simp
    then show ?thesis unfolding e 2 [OF None] by (auto simp: list_ex_iff)
  next
    case (Some v)
    then have "list_ex (\<lambda>kv. normalizeForComparison (fst kv) = normalizeForComparison al) b"
      using firstEntry_None [of "\<lambda>key. normalizeForComparison key = normalizeForComparison al" b]
      by simp
    moreover from Some have "firstAlias (al # aliases) b \<noteq> None" by simp
    ultimately show ?thesis by (auto simp: list_ex_iff)
  qed
qed

lemma firstAlias_Some: "firstAlias als b = Some v \<Longrightarrow> v \<in> snd ` set b"
  by (induction als b rule: firstAlias.induct) (auto split: option.splits dest: firstEntry_Some)

lemma semanticLoop_None:
  "(semanticLoop ms nv b = None) =
     (\<not> list_ex (\<lambda>kv. list_ex (\<lambda>m. nv = stripSeparators (fst m) \<and>
            list_ex (\<lambda>alias. normalizeForComparison (fst kv) = normalizeForComparison alias) (snd m)) ms) b)"
proof (induction ms nv b rule: semanticLoop.induct)
  case (1 nv b)
  then show ?case by (simp add: list_ex_iff)
next
  case (2 canonical aliases ms nv b)
  show ?case
  proof (cases "nv = stripSeparators canonical")
    case False
    then have e: "semanticLoop ((canonical, aliases) # ms) nv b = semanticLoop ms nv b" by simp
    show ?thesis unfolding e 2(2) [OF False] using False by (auto simp: list_ex_iff)
  next
    case True
    show ?thesis
    proof (cases "firstAlias aliases b")
      case None
      with True have e: "semanticLoop ((canonical, aliases) # ms) nv b = semanticLoop ms nv b"
        by simp
      show ?thesis unfolding e 2(1) [OF True None]
        using True None firstAlias_None [of aliases b] by (auto simp: list_ex_iff)
    next
      case (Some v)
      with True have "semanticLoop ((canonical, aliases) # ms) nv b \<noteq> None" by simp
      moreover from Some have "list_ex (\<lambda>kv. list_ex (\<lambda>alias. normalizeForComparison (fst kv) = normalizeForComparison alias) aliases) b"
        using firstAlias_None [of aliases b] by simp
      ultimately show ?thesis using True by (auto simp: list_ex_iff)
    qed
  qed
qed

lemma semanticLoop_Some: "semanticLoop ms nv b = Some v \<Longrightarrow> v \<in> snd ` set b"
  by (induction ms nv b rule: semanticLoop.induct)
     (auto split: option.splits if_splits dest: firstAlias_Some)

lemma variations_self: "Some n \<in> set (variations n)"
  by (simp add: variations_def)

lemma all_variations_None:
  "(\<forall>k. Some k \<in> set vs \<longrightarrow> getProp b k = None) =
   ((\<forall>kv\<in>set b. Some (fst kv) \<notin> set vs) \<and>
    \<not> list_ex (\<lambda>vo. case vo of None \<Rightarrow> False | Some k \<Rightarrow> k \<in> set objectPrototypeNames) vs)"
  unfolding getProp_None list_ex_iff
  apply (rule iffI)
   apply (fastforce split: option.splits)
  apply (fastforce split: option.splits)
  done

lemma all_stages_None:
  "(getProp b n = None \<and> firstDefined b (variations n) = None \<and>
    firstEntry (fuzzyKey (normalizeForComparison n)) b = None \<and>
    semanticLoop semanticMappings (stripSeparators (toLowerCase n)) b = None) =
   (\<not> someKeyMatches n b \<and> \<not> inheritedVariant n)"
proof -
  have a: "(getProp b n = None \<and> firstDefined b (variations n) = None) =
           (firstDefined b (variations n) = None)"
    using variations_self [of n] by (auto simp: firstDefined_None)
  have b: "exactMatch n k \<Longrightarrow> namingRewriteMatch n k" for k
    using variations_self [of n] by (simp add: exactMatch_def namingRewriteMatch_def)
  have s1: "(firstDefined b (variations n) = None) =
            ((\<forall>kv\<in>set b. \<not> namingRewriteMatch n (fst kv)) \<and> \<not> inheritedVariant n)"
    by (simp add: firstDefined_None all_variations_None namingRewriteMatch_def
        inheritedVariant_def)
  have s2: "(firstEntry (fuzzyKey (normalizeForComparison n)) b = None) =
            (\<forall>kv\<in>set b. \<not> (normalizedMatch n (fst kv) \<or> containmentMatch n (fst kv)))"
    by (simp add: firstEntry_None list_ex_iff fuzzyKey_def Let_def normalizedMatch_def
        containmentMatch_def)
  have s3: "(semanticLoop semanticMappings (stripSeparators (toLowerCase n)) b = None) =
            (\<forall>kv\<in>set b. \<not> aliasMatch n (fst kv))"
    by (simp add: semanticLoop_None aliasMatch_def list_ex_iff)
  have "(getProp b n = None \<and> firstDefined b (variations n) = None \<and>
    firstEntry (fuzzyKey (normalizeForComparison n)) b = None \<and>
    semanticLoop semanticMappings (stripSeparators (toLowerCase n)) b = None) =
    (firstDefined b (variations n) = None \<and>
    firstEntry (fuzzyKey (normalizeForComparison n)) b = None \<and>
    semanticLoop semanticMappings (stripSeparators (toLowerCase n)) b = None)"
    using a by blast
  also have "\<dots> = (\<not> someKeyMatches n b \<and> \<not> inheritedVariant n)"
    unfolding s1 s2 s3 someKeyMatches_def keyMatches_def list_ex_iff
    using b by blast
  finally show ?thesis .
qed

text \<open>
  Claim C8 (amended).  The resolver is a total function of the name and the brief: for a
  string and an object no operation of the source can throw, and every loop is bounded.
  Provided no value stored in the brief is \<open>null\<close>, it returns \<open>null\<close> exactly when no
  key matches at any of the five stages and no rewrite of the name is a member inherited
  from \<open>Object.prototype\<close>.
\<close>

theorem resolver_null_iff_no_match:
  assumes "\<forall>kv\<in>set briefData. snd kv \<noteq> JNull"
  shows "(getValueFromBrief varName briefData = JNull) =
         (\<not> someKeyMatches varName briefData \<and> \<not> inheritedVariant varName)"
proof -
  have nonnull: "v \<noteq> JNull" if "v \<in> snd ` set briefData \<or> (\<exists>k. v = JInherited k)" for v
    using that assms by auto
  show ?thesis
  proof (cases "getProp briefData varName")
    case (Some v)
    with nonnull [of v] getProp_Some [OF Some] all_stages_None [of briefData varName]
    show ?thesis by (auto simp: getValueFromBrief_def)
  next
    case n1: None
    show ?thesis
    proof (cases "firstDefined briefData (variations varName)")
      case (Some v)
      with n1 nonnull [of v] firstDefined_Some [OF Some] all_stages_None [of briefData varName]
      show ?thesis by (auto simp: getValueFromBrief_def)
    next
      case n2: None
      show ?thesis
      proof (cases "firstEntry (fuzzyKey (normalizeForComparison varName)) briefData")
        case (Some v)
        with n1 n2 nonnull [of v] firstEntry_Some [OF Some] all_stages_None [of briefData varName]
        show ?thesis by (auto simp: getValueFromBrief_def)
      next
        case n3: None
        show ?thesis
        proof (cases "semanticLoop semanticMappings (stripSeparators (toLowerCase varName)) briefData")
          case (Some v)
          with n1 n2 n3 nonnull [of v] semanticLoop_Some [OF Some]
            all_stages_None [of briefData varName]
          show ?thesis by (auto simp: getValueFromBrief_def)
        next
          case None
          with n1 n2 n3 all_stages_None [of briefData varName]
          show ?thesis by (simp add: getValueFromBrief_def)
        qed
      qed
    qed
  qed
qed

text \<open>A key that matches exactly and stores \<open>null\<close>: the resolver returns \<open>null\<close> although
  a key matches.\<close>

theorem resolver_null_with_matching_key: "getValueFromBrief ''due_date'' [(''due_date'', JNull)] = JNull \<and>
   someKeyMatches ''due_date'' [(''due_date'', JNull)]"
  by code_simp

text \<open>An inherited member is returned although the brief has no key at all.\<close>

lemma resolver_inherited_member: "getValueFromBrief ''constructor'' [] \<noteq> JNull \<and>
   \<not> someKeyMatches ''constructor'' []"
  by code_simp

theorem resolver_null_iff_no_match_witness:
  "list_all (\<lambda>kv. snd kv \<noteq> JNull) [(''Deadline'', JStr ''Friday'')] \<and>
   getValueFromBrief ''due_date'' [(''Deadline'', JStr ''Friday'')] \<noteq> JNull \<and>
   someKeyMatches ''due_date'' [(''Deadline'', JStr ''Friday'')]"
  using resolver_null_iff_no_match [of "[(''Deadline'', JStr ''Friday'')]" "''due_date''"] by code_simp

section \<open>Properties of the completeness checker\<close>











section \<open>Properties of the template parser\<close>

lemma parseBlocks_pushed: "parseBlocks bs pushed cur = pushed @ parseBlocks bs [] cur"
proof (induction bs arbitrary: pushed cur)
  case Nil
  then show ?case by (simp split: option.splits)
next
  case (Cons blk bs)
  have a: "parseBlocks bs (case cur of None \<Rightarrow> pushed | Some c \<Rightarrow> pushed @ [c]) x =
        pushed @ parseBlocks bs (case cur of None \<Rightarrow> [] | Some c \<Rightarrow> [c]) x" for x
    using Cons.IH [of "case cur of None \<Rightarrow> pushed | Some c \<Rightarrow> pushed @ [c]" x]
      Cons.IH [of "case cur of None \<Rightarrow> [] | Some c \<Rightarrow> [c]" x]
    by (simp split: option.splits)
  show ?case
    using Cons.IH [of pushed] a
    by (simp split: option.splits)
qed

lemma nonempty_trim: "\<not> isEmptyBlock b \<Longrightarrow> trim (extractTextFromBlock b) \<noteq> []"
  by (simp add: isEmptyBlock_def)

lemma parse_nil: "parseBlocks [] [] cur = currentList cur"
  by (cases cur) (simp_all add: currentList_def)

lemma parse_empty: "isEmptyBlock blk \<Longrightarrow> parseBlocks (blk # bs) [] cur = parseBlocks bs [] cur"
  by simp

lemma parse_heading:
  "\<not> isEmptyBlock blk \<Longrightarrow> isHeadingType (btype blk) \<Longrightarrow>
   parseBlocks (blk # bs) [] cur = currentList cur @ parseBlocks bs [] (Some (headingSection blk))"
  using parseBlocks_pushed [of bs "currentList cur" "Some (headingSection blk)"]
  by (cases cur) (simp_all add: currentList_def)

lemma parse_toggle:
  "\<not> isEmptyBlock blk \<Longrightarrow> \<not> isHeadingType (btype blk) \<Longrightarrow> btype blk = ''toggle'' \<Longrightarrow>
   parseBlocks (blk # bs) [] cur =
   parseBlocks bs []
     (Some (case cur of None \<Rightarrow> sopSection blk
            | Some c \<Rightarrow> c\<lparr>sectionSops := sectionSops c @ [toggleSOP blk]\<rparr>))"
  using nonempty_trim [of blk] by (simp split: option.splits)

lemma parse_content:
  "\<not> isEmptyBlock blk \<Longrightarrow> \<not> isHeadingType (btype blk) \<Longrightarrow> btype blk \<noteq> ''toggle'' \<Longrightarrow>
   parseBlocks (blk # bs) [] cur =
   parseBlocks bs []
     (Some (case cur of None \<Rightarrow> rootSection blk
            | Some c \<Rightarrow> c\<lparr>sectionContent := sectionContent c @ [makeContentBlock blk]\<rparr>))"
  by (simp split: option.splits)

lemma parse_cases:
  obtains (empty) "isEmptyBlock blk"
  | (heading) "\<not> isEmptyBlock blk" "isHeadingType (btype blk)"
  | (toggle) "\<not> isEmptyBlock blk" "\<not> isHeadingType (btype blk)" "btype blk = ''toggle''"
  | (content) "\<not> isEmptyBlock blk" "\<not> isHeadingType (btype blk)" "btype blk \<noteq> ''toggle''"
  by blast

lemma parse_heading_split:
  assumes "\<not> isEmptyBlock h" and "isHeadingType (btype h)"
  shows "parseBlocks (pre @ h # post) [] cur =
         parseBlocks pre [] cur @ parseBlocks post [] (Some (headingSection h))"
proof (induction pre arbitrary: cur)
  case Nil
  show ?case using assms by (simp add: parse_heading parse_nil del: parseBlocks.simps)
next
  case (Cons blk pre)
  show ?case
  proof (cases blk rule: parse_cases)
    case empty
    then show ?thesis using Cons.IH by (simp add: parse_empty del: parseBlocks.simps)
  next
    case heading
    then show ?thesis using Cons.IH by (simp add: parse_heading del: parseBlocks.simps)
  next
    case toggle
    then show ?thesis using Cons.IH by (simp add: parse_toggle del: parseBlocks.simps)
  next
    case content
    then show ?thesis using Cons.IH by (simp add: parse_content del: parseBlocks.simps)
  qed
qed

lemma parse_current_head:
  "\<exists>s rest more. parseBlocks bs [] (Some c) = s # rest \<and> kind s = kind c \<and>
     level s = level c \<and> title s = title c \<and> sectionContent s = sectionContent c @ more"
proof (induction bs arbitrary: c)
  case Nil
  show ?case by simp
next
  case (Cons blk bs)
  show ?case
  proof (cases blk rule: parse_cases)
    case empty
    then show ?thesis using Cons.IH [of c] by (simp add: parse_empty del: parseBlocks.simps)
  next
    case heading
    then show ?thesis by (simp add: parse_heading currentList_def del: parseBlocks.simps)
  next
    case toggle
    then show ?thesis
      using Cons.IH [of "c\<lparr>sectionSops := sectionSops c @ [toggleSOP blk]\<rparr>"]
      by (simp add: parse_toggle del: parseBlocks.simps)
  next
    case content
    from Cons.IH [of "c\<lparr>sectionContent := sectionContent c @ [makeContentBlock blk]\<rparr>"]
    obtain s rest more where
      "parseBlocks bs [] (Some (c\<lparr>sectionContent := sectionContent c @ [makeContentBlock blk]\<rparr>)) = s # rest"
      "kind s = kind c" "level s = level c" "title s = title c"
      "sectionContent s = sectionContent c @ makeContentBlock blk # more"
      by auto
    with content show ?thesis by (simp add: parse_content del: parseBlocks.simps)
  qed
qed

lemma heading_not_toggle: "isHeadingType t \<Longrightarrow> t \<noteq> ''toggle''"
  by (auto simp: isHeadingType_def)

lemma sectionTitles_append: "sectionTitles (xs @ ys) = sectionTitles xs @ sectionTitles ys"
  by (simp add: sectionTitles_def)

lemma parse_titles:
  "sectionTitles (parseBlocks bs [] cur) = sectionTitles (currentList cur) @ headingTexts bs"
proof (induction bs arbitrary: cur)
  case Nil
  show ?case by (simp add: headingTexts_def parse_nil del: parseBlocks.simps)
next
  case (Cons blk bs)
  have hs: "sectionTitles [headingSection blk] = [extractTextFromBlock blk]"
    by (simp add: headingSection_def sectionTitles_def)
  have upd: "sectionTitles (currentList (Some (case cur of None \<Rightarrow> sopSection blk
            | Some c \<Rightarrow> c\<lparr>sectionSops := sectionSops c @ [toggleSOP blk]\<rparr>))) =
             sectionTitles (currentList cur)"
    "sectionTitles (currentList (Some (case cur of None \<Rightarrow> rootSection blk
            | Some c \<Rightarrow> c\<lparr>sectionContent := sectionContent c @ [makeContentBlock blk]\<rparr>))) =
             sectionTitles (currentList cur)"
    by (simp_all add: sectionTitles_def currentList_def sopSection_def rootSection_def
        split: option.splits)
  show ?case
  proof (cases blk rule: parse_cases)
    case empty
    then show ?thesis using Cons.IH [of cur]
      by (simp add: parse_empty headingTexts_def del: parseBlocks.simps)
  next
    case heading
    then show ?thesis using Cons.IH [of "Some (headingSection blk)"] hs
      by (simp add: parse_heading headingTexts_def sectionTitles_append currentList_def
          del: parseBlocks.simps)
  next
    case toggle
    then show ?thesis using Cons.IH upd(1)
      by (simp add: parse_toggle headingTexts_def del: parseBlocks.simps)
  next
    case content
    then show ?thesis using Cons.IH upd(2)
      by (simp add: parse_content headingTexts_def del: parseBlocks.simps)
  qed
qed


lemma sections_parseTemplate: "sections (parseTemplate bs) = parseBlocks bs [] None"
  by (simp add: parseTemplate_def Let_def)

lemma parse_skip_empty:
  "list_all isEmptyBlock pre \<Longrightarrow> parseBlocks (pre @ bs) [] cur = parseBlocks bs [] cur"
  by (induction pre) (simp_all add: parse_empty del: parseBlocks.simps)

text \<open>
  Claim C7 (amended).  The parser goes through the blocks in order.  The titles of the
  sections started by a heading are the texts of the non-empty heading blocks, in the
  order of the template.  A non-empty heading block closes what precedes it: the
  sections of \<open>pre @ h # post\<close> are the sections of \<open>pre\<close> followed by those of
  \<open>h # post\<close>, the first of which has the heading's type as level and its text as title.
  A non-empty block that is neither a heading nor a toggle and that is the first
  non-empty block of the template creates the implicit root section, whose content starts
  with that block.
\<close>

theorem template_sections_in_order:
  "sectionTitles (sections (parseTemplate blocks)) = headingTexts blocks \<and>
   (\<not> isEmptyBlock h \<and> isHeadingType (btype h) \<longrightarrow>
      sections (parseTemplate (pre @ h # post)) =
        sections (parseTemplate pre) @ sections (parseTemplate (h # post)) \<and>
      (\<exists>s rest. sections (parseTemplate (h # post)) = s # rest \<and> kind s = ''section'' \<and>
         level s = btype h \<and> title s = extractTextFromBlock h)) \<and>
   (list_all isEmptyBlock empties \<and> \<not> isEmptyBlock c \<and> \<not> isHeadingType (btype c) \<and>
    btype c \<noteq> ''toggle'' \<longrightarrow>
      (\<exists>s rest more. sections (parseTemplate (empties @ c # following)) = s # rest \<and>
         kind s = ''content'' \<and> level s = ''root'' \<and>
         sectionContent s = makeContentBlock c # more))"
proof (intro conjI impI)
  show "sectionTitles (sections (parseTemplate blocks)) = headingTexts blocks"
    using parse_titles [of blocks None]
    by (simp add: sections_parseTemplate currentList_def sectionTitles_def)
next
  assume h: "\<not> isEmptyBlock h \<and> isHeadingType (btype h)"
  then have e: "parseBlocks (h # post) [] None = parseBlocks post [] (Some (headingSection h))"
    by (simp add: parse_heading currentList_def del: parseBlocks.simps)
  from h show "sections (parseTemplate (pre @ h # post)) =
      sections (parseTemplate pre) @ sections (parseTemplate (h # post))"
    using parse_heading_split [of h pre post None] e
    by (simp add: sections_parseTemplate del: parseBlocks.simps)
  from parse_current_head [of post "headingSection h"]
  show "\<exists>s rest. sections (parseTemplate (h # post)) = s # rest \<and> kind s = ''section'' \<and>
         level s = btype h \<and> title s = extractTextFromBlock h"
    unfolding sections_parseTemplate e by (auto simp: headingSection_def)
next
  assume c: "list_all isEmptyBlock empties \<and> \<not> isEmptyBlock c \<and> \<not> isHeadingType (btype c) \<and>
    btype c \<noteq> ''toggle''"
  then have e: "parseBlocks (empties @ c # following) [] None =
      parseBlocks following [] (Some (rootSection c))"
    by (simp add: parse_skip_empty parse_content del: parseBlocks.simps)
  from parse_current_head [of following "rootSection c"]
  show "\<exists>s rest more. sections (parseTemplate (empties @ c # following)) = s # rest \<and>
         kind s = ''content'' \<and> level s = ''root'' \<and>
         sectionContent s = makeContentBlock c # more"
    unfolding sections_parseTemplate e by (auto simp: rootSection_def)
qed

theorem template_sections_in_order_witness:
  "\<not> isEmptyBlock (plainBlock ''heading_2'' ''Budget'') \<and>
   isHeadingType (btype (plainBlock ''heading_2'' ''Budget'')) \<and>
   list_all isEmptyBlock [] \<and>
   \<not> isEmptyBlock (plainBlock ''paragraph'' ''Intro'') \<and>
   \<not> isHeadingType (btype (plainBlock ''paragraph'' ''Intro'')) \<and>
   btype (plainBlock ''paragraph'' ''Intro'') \<noteq> ''toggle'' \<and>
   sectionTitles (sections (parseTemplate
      [plainBlock ''paragraph'' ''Intro'', plainBlock ''heading_2'' ''Budget'',
       plainBlock ''paragraph'' ''{{budget}}''])) = [''Budget''] \<and>
   sections (parseTemplate
      ([plainBlock ''paragraph'' ''Intro''] @ plainBlock ''heading_2'' ''Budget'' #
       [plainBlock ''paragraph'' ''{{budget}}''])) =
     sections (parseTemplate [plainBlock ''paragraph'' ''Intro'']) @
     sections (parseTemplate
       (plainBlock ''heading_2'' ''Budget'' # [plainBlock ''paragraph'' ''{{budget}}'']))"
proof -
  let ?p = "plainBlock ''paragraph'' ''Intro''"
  let ?h = "plainBlock ''heading_2'' ''Budget''"
  let ?q = "plainBlock ''paragraph'' ''{{budget}}''"
  note t = template_sections_in_order [of "[?p, ?h, ?q]" ?h "[?p]" "[?q]" "[]" ?p "[?h, ?q]"]
  have hyp: "\<not> isEmptyBlock ?h \<and> isHeadingType (btype ?h)" by code_simp
  have hyp2: "list_all isEmptyBlock [] \<and> \<not> isEmptyBlock ?p \<and> \<not> isHeadingType (btype ?p) \<and>
      btype ?p \<noteq> ''toggle''" by code_simp
  have ht: "headingTexts [?p, ?h, ?q] = [''Budget'']" by code_simp
  from t have "sectionTitles (sections (parseTemplate [?p, ?h, ?q])) = headingTexts [?p, ?h, ?q]"
    by (rule conjunct1)
  with ht have a: "sectionTitles (sections (parseTemplate [?p, ?h, ?q])) = [''Budget'']" by simp
  from t hyp have b: "sections (parseTemplate ([?p] @ ?h # [?q])) =
      sections (parseTemplate [?p]) @ sections (parseTemplate (?h # [?q]))"
    by blast
  from hyp hyp2 a b show ?thesis by blast
qed

text \<open>A paragraph that follows a toggle and precedes every heading: it is content of the
  implicit instruction section the toggle created, and no root section exists.\<close>

theorem content_after_toggle_not_in_root:
  "\<not> isEmptyBlock (plainBlock ''paragraph'' ''hello'') \<and>
   \<not> isHeadingType (btype (plainBlock ''paragraph'' ''hello'')) \<and>
   map level (sections (parseTemplate
      [plainBlock ''toggle'' ''do X'', plainBlock ''paragraph'' ''hello''])) = [''instruction''] \<and>
   map (\<lambda>s. map content (sectionContent s)) (sections (parseTemplate
      [plainBlock ''toggle'' ''do X'', plainBlock ''paragraph'' ''hello''])) = [[''hello'']]"
  by code_simp

section \<open>Properties of the template applier\<close>

lemma nonempty_text: "\<not> isEmptyBlock b \<Longrightarrow> extractTextFromBlock b \<noteq> []"
  by (simp add: isEmptyBlock_def)

lemma heading_type_nonempty: "isHeadingType t \<Longrightarrow> t \<noteq> []"
  by (auto simp: isHeadingType_def)

lemma parse_parsedSection:
  "list_all parsedSection (currentList cur) \<Longrightarrow> list_all parsedSection (parseBlocks bs [] cur)"
proof (induction bs arbitrary: cur)
  case Nil
  then show ?case by (simp add: parse_nil del: parseBlocks.simps)
next
  case (Cons blk bs)
  show ?case
  proof (cases blk rule: parse_cases)
    case empty
    then show ?thesis using Cons by (simp add: parse_empty del: parseBlocks.simps)
  next
    case heading
    then have "parsedSection (headingSection blk)"
      using nonempty_text [of blk] heading_type_nonempty heading_not_toggle
      by (simp add: parsedSection_def headingSection_def)
    then have "list_all parsedSection (parseBlocks bs [] (Some (headingSection blk)))"
      using Cons.IH [of "Some (headingSection blk)"] by (simp add: currentList_def)
    with heading Cons.prems show ?thesis
      by (simp add: parse_heading del: parseBlocks.simps)
  next
    case toggle
    have "list_all parsedSection (currentList (Some (case cur of None \<Rightarrow> sopSection blk
            | Some c \<Rightarrow> c\<lparr>sectionSops := sectionSops c @ [toggleSOP blk]\<rparr>)))"
      using Cons.prems
      by (cases cur) (simp_all add: currentList_def parsedSection_def sopSection_def)
    with toggle show ?thesis using Cons.IH by (simp add: parse_toggle del: parseBlocks.simps)
  next
    case content
    have "list_all parsedSection (currentList (Some (case cur of None \<Rightarrow> rootSection blk
            | Some c \<Rightarrow> c\<lparr>sectionContent := sectionContent c @ [makeContentBlock blk]\<rparr>)))"
      using Cons.prems content
      by (cases cur)
         (simp_all add: currentList_def parsedSection_def rootSection_def makeContentBlock_def)
    with content show ?thesis using Cons.IH by (simp add: parse_content del: parseBlocks.simps)
  qed
qed

lemma parsed_sections: "list_all parsedSection (sections (parseTemplate bs))"
  using parse_parsedSection [of None bs] by (simp add: sections_parseTemplate currentList_def)







text \<open>
  Claim C5.  A section that is marked conditional and none of whose variables (those of
  the heading and those of every content block) resolves to a value other than \<open>null\<close>
  and the empty string adds nothing to the output of \<open>applyTemplate\<close>: the output is
  that of the template without the section.  A section of a parsed template that is not
  marked conditional always adds its heading block, followed by whatever its content
  blocks give.
\<close>

theorem conditional_sections_skipped:
  "(sectionIsConditional s \<and> \<not> sectionHasData s briefData \<longrightarrow>
      applyTemplate (p\<lparr>sections := pre @ s # post\<rparr>) briefData =
      applyTemplate (p\<lparr>sections := pre @ post\<rparr>) briefData) \<and>
   (sections (parseTemplate blocks) = before @ t # after \<and> \<not> sectionIsConditional t \<longrightarrow>
      applyTemplate (parseTemplate blocks) briefData =
        applyTemplate (p\<lparr>sections := before\<rparr>) briefData @
        createHeadingBlock (level t) (title t) briefData #
        concat (map (applyContent briefData) (sectionContent t)) @
        applyTemplate (p\<lparr>sections := after\<rparr>) briefData)"
proof (intro conjI impI)
  assume "sectionIsConditional s \<and> \<not> sectionHasData s briefData"
  then have "applySection briefData s = []" by (simp add: applySection_def)
  then show "applyTemplate (p\<lparr>sections := pre @ s # post\<rparr>) briefData =
      applyTemplate (p\<lparr>sections := pre @ post\<rparr>) briefData"
    by (simp add: applyTemplate_def)
next
  assume a: "sections (parseTemplate blocks) = before @ t # after \<and> \<not> sectionIsConditional t"
  with parsed_sections [of blocks] have "parsedSection t" by simp
  with a have "applySection briefData t =
      createHeadingBlock (level t) (title t) briefData #
      concat (map (applyContent briefData) (sectionContent t))"
    by (simp add: applySection_def parsedSection_def)
  with a show "applyTemplate (parseTemplate blocks) briefData =
        applyTemplate (p\<lparr>sections := before\<rparr>) briefData @
        createHeadingBlock (level t) (title t) briefData #
        concat (map (applyContent briefData) (sectionContent t)) @
        applyTemplate (p\<lparr>sections := after\<rparr>) briefData"
    by (simp add: applyTemplate_def)
qed

theorem conditional_sections_skipped_witness:
  "sectionIsConditional (headingSection (plainBlock ''heading_2'' ''Budget {{budget}} (optional)'')) \<and>
   \<not> sectionHasData (headingSection (plainBlock ''heading_2'' ''Budget {{budget}} (optional)''))
     [(''Description'', JStr ''A reel'')] \<and>
   applyTemplate ((parseTemplate [])
       \<lparr>sections := [headingSection (plainBlock ''heading_2'' ''Budget {{budget}} (optional)'')]\<rparr>)
     [(''Description'', JStr ''A reel'')] = []"
proof -
  let ?s = "headingSection (plainBlock ''heading_2'' ''Budget {{budget}} (optional)'')"
  let ?b = "[(''Description'', JStr ''A reel'')]"
  have h: "sectionIsConditional ?s \<and> \<not> sectionHasData ?s ?b" by code_simp
  have e: "applyTemplate ((parseTemplate [])\<lparr>sections := []\<rparr>) ?b = []"
    by (simp add: applyTemplate_def)
  from conditional_sections_skipped [where s = ?s and briefData = ?b and p = "parseTemplate []"
      and pre = "[]" and post = "[]"] h
  have "applyTemplate ((parseTemplate [])\<lparr>sections := [] @ ?s # []\<rparr>) ?b =
        applyTemplate ((parseTemplate [])\<lparr>sections := [] @ []\<rparr>) ?b"
    by blast
  then have "applyTemplate ((parseTemplate [])\<lparr>sections := [?s]\<rparr>) ?b = []"
    by (simp only: append_Nil e)
  with h show ?thesis by blast
qed

section \<open>Properties of the replacement of variables\<close>





















lemma braces_in_unresolved_name:
  "replaceVariables ''{{ {{a}} }}'' [] = ''[ {{a] }}'' \<and>
   hasPlaceholder (replaceVariables ''{{ {{a}} }}'' [])"
  by code_simp

section \<open>Properties of the conflict detector\<close>









text \<open>A count of sections is taken for a duration.\<close>

lemma sections_taken_for_seconds:
  "durationValues ''3 sections, 30 seconds'' = [3, 30]"
  by code_simp

lemma timeline_full: "list_all fullConflict (detectTimelineConflictsText tx complexity due)"
  by (simp add: detectTimelineConflictsText_def Let_def fullConflict_def conflictTypes_def)

lemma budget_full: "list_all fullConflict (detectBudgetConflictsText tx complexity)"
  by (simp add: detectBudgetConflictsText_def Let_def fullConflict_def conflictTypes_def
      split: option.splits)

lemma technical_full: "list_all fullConflict (technicalConflicts tx)"
  by (simp add: technicalConflicts_def durationConflicts_def aspectRatioConflicts_def Let_def
      fullConflict_def conflictTypes_def)

lemma resource_full: "list_all fullConflict (detectResourceConflictsText tx)"
  by (simp add: detectResourceConflictsText_def Let_def fullConflict_def conflictTypes_def)

lemma expectation_full: "list_all fullConflict (detectExpectationConflictsText tx complexity)"
  by (simp add: detectExpectationConflictsText_def Let_def fullConflict_def conflictTypes_def)

text \<open>
  Claim C2 (amended).  Every conflict that \<open>detectConflicts\<close> produces carries one of the
  five conflict types, a severity, a description, a recommendation and an impact
  statement, none of them empty.
\<close>

theorem conflicts_carry_recommendations:
  "list_all fullConflict (detectConflicts briefData complexity dueInDays)"
  using timeline_full budget_full technical_full resource_full expectation_full
  by (simp add: detectConflicts_def Let_def)

theorem conflicts_carry_recommendations_witness:
  "map (\<lambda>c. (ctype c, severity c)) (detectConflicts
     [(''brief'', JStr ''Photoshoot and animation, budget $100, 30 seconds, then 60 Seconds'')]
     ''Pizza'' None) =
     [(''budget_scope'', ''high''), (''technical_contradiction'', ''medium'')] \<and>
   list_all fullConflict (detectConflicts
     [(''brief'', JStr ''Photoshoot and animation, budget $100, 30 seconds, then 60 Seconds'')]
     ''Pizza'' None)"
proof -
  have "map (\<lambda>c. (ctype c, severity c)) (detectConflicts
     [(''brief'', JStr ''Photoshoot and animation, budget $100, 30 seconds, then 60 Seconds'')]
     ''Pizza'' None) =
     [(''budget_scope'', ''high''), (''technical_contradiction'', ''medium'')]"
    by code_simp
  with conflicts_carry_recommendations [of
     "[(''brief'', JStr ''Photoshoot and animation, budget $100, 30 seconds, then 60 Seconds'')]"
     "''Pizza''" None]
  show ?thesis by blast
qed

text \<open>A budget that is low for the scope: the conflict judges the adequacy of the budget
  and recommends what to do.\<close>

theorem budget_conflict_recommends:
  "map (\<lambda>c. (ctype c, recommendation c, impact c)) (detectConflicts
     [(''brief'', JStr ''Photoshoot and animation, budget $100'')] ''Pizza'' None) =
   [(''budget_scope'',
     ''Critical: Scope needs to be reduced or budget increased significantly'',
     ''Project likely unprofitable or undeliverable at current budget'')]"
  by code_simp

section \<open>Properties of record creation\<close>
















text \<open>As the code stands, every round-trip through the reasoning service ends the loop:
  the properties are never replaced, and no creation call follows a round-trip.\<close>

lemma onError_never_corrects:
  "onError llm st = Inl st2 \<or> onError llm st = Inr st2 \<Longrightarrow>
   notionProperties st2 = notionProperties st"
  by (auto simp: onError_def split: if_splits llmResult.splits)

end
